theory Spec2Isabelle
  imports
    Main
    "HOL-Library.Char_ord"
    "HOL-Library.List_Lexorder"
    "HOL-Library.Multiset"
begin

section \<open>imadata: repository metadata with IMA hashes\<close>

text \<open>
  A shallow embedding of \<^verbatim>\<open>imadata.py\<close>. Python strings and file contents are
  \<^typ>\<open>string\<close>; strings are compared as Python compares them, character by character
  with a proper prefix smaller (the lexicographic order on \<^typ>\<open>char list\<close>).
  A \<^verbatim>\<open>pathlib.Path\<close> is the list of its components. Everything the program
  does to its surroundings is explicit: the file system, the table of open file
  descriptors, the standard output and the clock are fields of a \<^emph>\<open>world\<close>, and
  every exception is a value of type \<open>error\<close>.
\<close>

subsection \<open>Python values\<close>

datatype error =
    OSError               \<comment> \<open>a file cannot be opened\<close>
  | RpmError              \<comment> \<open>\<^verbatim>\<open>rpm.error\<close>: the header cannot be read\<close>
  | ValueError            \<comment> \<open>\<^verbatim>\<open>multiprocessing.Pool\<close> with fewer than one process\<close>
  | ParseError            \<comment> \<open>\<^verbatim>\<open>ET.parse\<close> on a document that is not XML\<close>
  | KeyError              \<comment> \<open>a missing dictionary key\<close>
  | IndexError            \<comment> \<open>a list index out of range\<close>
  | SystemExit int        \<comment> \<open>\<^verbatim>\<open>exit(n)\<close>\<close>

type_synonym path = "string list"

text \<open>Truthiness of a header value that is either \<^verbatim>\<open>None\<close> or a number.\<close>

fun truthy :: "int option \<Rightarrow> bool" where
  "truthy None = False"
| "truthy (Some n) = (n \<noteq> 0)"

text \<open>\<^verbatim>\<open>x or 0\<close> for such a value.\<close>

definition or0 :: "int option \<Rightarrow> int" where
  "or0 x = (if truthy x then the x else 0)"

text \<open>\<^verbatim>\<open>str\<close> of an integer: decimal digits, a minus sign first when negative.\<close>

definition digit_char :: "nat \<Rightarrow> char" where
  "digit_char d =
     (if d = 0 then CHR ''0'' else if d = 1 then CHR ''1'' else if d = 2 then CHR ''2''
      else if d = 3 then CHR ''3'' else if d = 4 then CHR ''4'' else if d = 5 then CHR ''5''
      else if d = 6 then CHR ''6'' else if d = 7 then CHR ''7'' else if d = 8 then CHR ''8''
      else CHR ''9'')"

fun str_nat :: "nat \<Rightarrow> string" where
  "str_nat n = (if n < 10 then [digit_char n] else str_nat (n div 10) @ [digit_char (n mod 10)])"

declare str_nat.simps [simp del]

definition str_int :: "int \<Rightarrow> string" where
  "str_int i = (if i < 0 then CHR ''-'' # str_nat (nat (- i)) else str_nat (nat i))"

text \<open>
  \<^verbatim>\<open>sorted(xs, key=f)\<close> is a stable sort; a stable sort has one result only, the one
  insertion sort computes.
\<close>

definition py_sorted :: "('a \<Rightarrow> 'k::linorder) \<Rightarrow> 'a list \<Rightarrow> 'a list" where
  "py_sorted key xs = sort_key key xs"

subsection \<open>Package headers and package records\<close>

text \<open>
  What the program reads of an RPM header: the six tags of \<^verbatim>\<open>analyze\<close> and the file
  table of \<^verbatim>\<open>rpm.files(hdr)\<close>, each entry with its \<^verbatim>\<open>name\<close> and \<^verbatim>\<open>digest\<close>.
  A tag that the header lacks reads as \<^verbatim>\<open>None\<close>.
\<close>

record hdr =
  RPMTAG_NAME :: string
  RPMTAG_ARCH :: string
  RPMTAG_SOURCEPACKAGE :: "int option"
  RPMTAG_EPOCH :: "int option"
  RPMTAG_VERSION :: string
  RPMTAG_RELEASE :: string
  rpm_files :: "(string \<times> string) list"

text \<open>The dictionary \<^verbatim>\<open>info\<close> that \<^verbatim>\<open>analyze\<close> returns, one field per key.\<close>

record package =
  name :: string
  arch :: string
  src :: "int option"
  epoch :: "int option"
  ver :: string
  rel :: string
  files :: "(string \<times> string) list"

definition zero_digest :: string where
  "zero_digest = replicate 64 (CHR ''0'')"

text \<open>Lines 24 to 39 of \<^verbatim>\<open>analyze\<close>: the record built from a header that was read.\<close>

definition info_of_hdr :: "hdr \<Rightarrow> package" where
  "info_of_hdr h =
     \<lparr> name = RPMTAG_NAME h, arch = RPMTAG_ARCH h, src = RPMTAG_SOURCEPACKAGE h,
       epoch = RPMTAG_EPOCH h, ver = RPMTAG_VERSION h, rel = RPMTAG_RELEASE h,
       files = [(n, d) \<leftarrow> rpm_files h. d \<noteq> zero_digest] \<rparr>"

subsection \<open>The document builder\<close>

text \<open>
  The file object of \<^verbatim>\<open>imadata_xml\<close> is the list of the strings written to it so far,
  one element per call of \<^verbatim>\<open>f.write\<close>; the content of the file is their concatenation.
\<close>

definition xml_prolog :: string where
  \<open>xml_prolog = ''<?xml version="1.0" encoding="UTF-8"?>\<newline>''\<close>

definition imadata_open :: "nat \<Rightarrow> string" where
  \<open>imadata_open n = ''<imadata packages="'' @ str_nat n @ ''">\<newline>''\<close>

definition package_open :: "package \<Rightarrow> string" where
  \<open>package_open pkg =
     ''<package name="'' @ name pkg @ ''" arch="''
       @ (if truthy (src pkg) then ''src'' else arch pkg) @ ''">\<newline>''\<close>

definition version_elem :: "package \<Rightarrow> string" where
  \<open>version_elem pkg =
     ''  <version epoch="'' @ str_int (or0 (epoch pkg)) @ ''" ver="'' @ ver pkg
       @ ''" rel="'' @ rel pkg @ ''"/>\<newline>''\<close>

definition file_elem :: "string \<Rightarrow> string \<Rightarrow> string" where
  \<open>file_elem fname hash = ''  <file hash="'' @ hash @ ''">'' @ fname @ ''</file>\<newline>''\<close>

definition package_close :: string where
  \<open>package_close = ''</package>\<newline>''\<close>

definition imadata_close :: string where
  \<open>imadata_close = ''</imadata>''\<close>

text \<open>The body of the loop over the sorted packages.\<close>

definition write_package :: "string list \<Rightarrow> package \<Rightarrow> string list" where
  "write_package f pkg =
     (let f = f @ [package_open pkg];
          f = f @ [version_elem pkg];
          f = foldl (\<lambda>f (fname, hash). f @ [file_elem fname hash]) f (files pkg)
      in f @ [package_close])"

definition imadata_writes :: "package list \<Rightarrow> string list" where
  "imadata_writes packages =
     (let f = [];
          f = f @ [xml_prolog];
          f = f @ [imadata_open (length packages)];
          f = foldl write_package f (py_sorted name packages)
      in f @ [imadata_close])"

text \<open>
  A process and its surroundings: the files on disk, the descriptors the process holds
  open, each with the path it was opened on, what was printed, and the time in seconds.
\<close>

type_synonym fdtable = "(nat \<times> path) list"

record world =
  fs :: "path \<rightharpoonup> string"
  open_fds :: fdtable
  stdout :: "string list"
  clock :: int

text \<open>
  \<^verbatim>\<open>imadata_xml\<close>; the global \<^verbatim>\<open>args.repository\<close> is its first argument. Opening
  the file for writing truncates it, so what was there before is replaced. The file
  system is a map from paths to contents, with no directories and no permissions: a
  write to a path succeeds, as it does in a repository whose directory
  \<^verbatim>\<open>repodata\<close> exists and can be written.
\<close>

definition imadata_xml :: "path \<Rightarrow> package list \<Rightarrow> world \<Rightarrow> path \<times> world" where
  "imadata_xml repository packages w =
     (let imadata = repository @ [''repodata'', ''imadata.xml''];
          w = w\<lparr>fs := (fs w)(imadata \<mapsto> concat (imadata_writes packages))\<rparr>
      in (imadata, w))"

subsection \<open>Library functions taken as parameters\<close>

text \<open>
  The program's results depend on library code that is not part of it: the directory
  walk of \<^verbatim>\<open>Path.glob\<close>, the RPM header reader, SHA-256, gzip (whose header holds
  the time of compression) and the XML parser and serialiser of \<^verbatim>\<open>ElementTree\<close>.
  They are arbitrary functions, collected in one record.
\<close>

datatype element =
  Element (el_tag: string) (el_attrib: "(string \<times> string) list")
    (el_text: "string option") (el_tail: "string option") (el_children: "element list")

record library =
  glob :: "(path \<rightharpoonup> string) \<Rightarrow> path \<Rightarrow> string \<Rightarrow> path list"
  hdrFromFdno :: "string \<Rightarrow> hdr option"
  sha256_hexdigest :: "string \<Rightarrow> string"
  gzip_compress :: "int \<Rightarrow> string \<Rightarrow> string"
  ET_parse :: "string \<Rightarrow> element option"
  ET_write :: "element \<Rightarrow> string"

subsection \<open>File descriptors\<close>

text \<open>
  \<^verbatim>\<open>os.open\<close> returns the lowest descriptor that is not in use; \<^verbatim>\<open>os.close\<close>
  takes the descriptor out of the table.
\<close>

definition lowest_unused :: "nat list \<Rightarrow> nat" where
  "lowest_unused used = hd [n \<leftarrow> [0 ..< Suc (length used)]. n \<notin> set used]"

definition os_open :: "path \<Rightarrow> world \<Rightarrow> (error + nat) \<times> world" where
  "os_open p s =
     (if p \<in> dom (fs s)
      then let fd = lowest_unused (map fst (open_fds s))
           in (Inr fd, s\<lparr>open_fds := (fd, p) # open_fds s\<rparr>)
      else (Inl OSError, s))"

definition os_close :: "nat \<Rightarrow> world \<Rightarrow> world" where
  "os_close fd s = s\<lparr>open_fds := [(k, p) \<leftarrow> open_fds s. k \<noteq> fd]\<rparr>"

definition fd_content :: "world \<Rightarrow> nat \<Rightarrow> string option" where
  "fd_content s fd = Option.bind (map_of (open_fds s) fd) (fs s)"

subsection \<open>The digest extractor\<close>

text \<open>
  \<^verbatim>\<open>analyze\<close>, statement by statement: open, read the header, close, build the
  record. An exception leaves the function at the statement that raises it.
\<close>

definition analyze :: "library \<Rightarrow> path \<Rightarrow> world \<Rightarrow> (error + package) \<times> world" where
  "analyze lib pkg s =
     (case os_open pkg s of
        (Inl e, s) \<Rightarrow> (Inl e, s)
      | (Inr fd, s) \<Rightarrow>
          (case Option.bind (fd_content s fd) (hdrFromFdno lib) of
             None \<Rightarrow> (Inl RpmError, s)
           | Some h \<Rightarrow>
               let s = os_close fd s
               in (Inr (info_of_hdr h), s)))"

subsection \<open>The repository scanner\<close>

text \<open>
  \<^verbatim>\<open>pool.map\<close> applies the function to every item, also after one has failed, and
  returns the results in the order of the items, or raises the exception of a failed
  call. The model runs the calls in one worker, one after the other, and reports the
  first failure in item order.
\<close>

fun pool_map ::
  "('a \<Rightarrow> world \<Rightarrow> (error + 'b) \<times> world) \<Rightarrow> 'a list \<Rightarrow> world
     \<Rightarrow> (error + 'b) list \<times> world" where
  "pool_map f [] s = ([], s)"
| "pool_map f (x # xs) s =
     (case f x s of (r, s') \<Rightarrow> (case pool_map f xs s' of (rs, s'') \<Rightarrow> (r # rs, s'')))"

fun collect :: "(error + 'b) list \<Rightarrow> error + 'b list" where
  "collect [] = Inr []"
| "collect (Inl e # rs) = Inl e"
| "collect (Inr x # rs) = (case collect rs of Inl e \<Rightarrow> Inl e | Inr xs \<Rightarrow> Inr (x # xs))"

text \<open>
  \<^verbatim>\<open>analyze_all\<close>. The worker starts with the descriptors of the process that made
  it; what it leaves open is lost with it when the pool is closed.
\<close>

definition analyze_all :: "library \<Rightarrow> path \<Rightarrow> int \<Rightarrow> world \<Rightarrow> error + package list" where
  "analyze_all lib repository jobs s =
     (if jobs < 1 then Inl ValueError
      else collect (fst (pool_map (analyze lib)
             (glob lib (fs s) repository ''**/*.rpm'') s)))"

subsection \<open>Paths\<close>

text \<open>
  The operations of \<^verbatim>\<open>pathlib\<close> that the program uses. The suffix of a path is the
  part of its last component from the last dot on, when that dot is neither the first
  nor the last character. \<^verbatim>\<open>with_name\<close> and \<^verbatim>\<open>with_suffix\<close> raise on a path
  with no name; the program calls them on paths that end in \<^verbatim>\<open>imadata.xml\<close> and
  \<^verbatim>\<open>imadata.xml.gz\<close> only.
\<close>

definition path_name :: "path \<Rightarrow> string" where
  "path_name p = (if p = [] then [] else last p)"

fun rfind :: "char \<Rightarrow> string \<Rightarrow> nat option" where
  "rfind c [] = None"
| "rfind c (x # xs) =
     (case rfind c xs of
        Some i \<Rightarrow> Some (Suc i)
      | None \<Rightarrow> if x = c then Some 0 else None)"

definition path_suffix :: "path \<Rightarrow> string" where
  "path_suffix p =
     (let n = path_name p
      in case rfind (CHR ''.'') n of
           None \<Rightarrow> []
         | Some i \<Rightarrow> if 0 < i \<and> i < length n - 1 then drop i n else [])"

definition with_name :: "path \<Rightarrow> string \<Rightarrow> path" where
  "with_name p n = butlast p @ [n]"

definition with_suffix :: "path \<Rightarrow> string \<Rightarrow> path" where
  "with_suffix p suffix =
     (let n = path_name p; old_suffix = path_suffix p
      in with_name p
           (if old_suffix = [] then n @ suffix
            else take (length n - length old_suffix) n @ suffix))"

text \<open>\<^verbatim>\<open>Path.rename\<close>: the target is replaced when it exists.\<close>

definition path_rename :: "path \<Rightarrow> path \<Rightarrow> world \<Rightarrow> (error + unit) \<times> world" where
  "path_rename p target w =
     (case fs w p of
        None \<Rightarrow> (Inl OSError, w)
      | Some b \<Rightarrow> (Inr (), w\<lparr>fs := ((fs w)(p := None))(target \<mapsto> b)\<rparr>))"

definition st_size :: "path \<Rightarrow> world \<Rightarrow> error + nat" where
  "st_size p w = (case fs w p of None \<Rightarrow> Inl OSError | Some b \<Rightarrow> Inr (length b))"

text \<open>
  \<^verbatim>\<open>st_ctime\<close> of a file that the run has just written; the program uses its integer
  part only, which is the time on the clock.
\<close>

definition st_ctime :: "path \<Rightarrow> world \<Rightarrow> error + int" where
  "st_ctime p w = (case fs w p of None \<Rightarrow> Inl OSError | Some b \<Rightarrow> Inr (clock w))"

subsection \<open>The artifact finalizer\<close>

definition file_hash :: "library \<Rightarrow> path \<Rightarrow> world \<Rightarrow> error + string" where
  "file_hash lib p w =
     (case fs w p of
        None \<Rightarrow> Inl OSError
      | Some b \<Rightarrow> Inr (sha256_hexdigest lib b))"

text \<open>
  \<^verbatim>\<open>gzip_file\<close>; the global \<^verbatim>\<open>imadata\<close>, whose suffix it reads, is its second
  argument. The compressed bytes depend on the time of compression.
\<close>

definition gzip_file :: "library \<Rightarrow> path \<Rightarrow> path \<Rightarrow> world \<Rightarrow> (error + path) \<times> world" where
  "gzip_file lib imadata p w =
     (let path_gz = with_suffix p (path_suffix imadata @ ''.gz'')
      in case fs w p of
           None \<Rightarrow> (Inl OSError, w)
         | Some b \<Rightarrow>
             let w = w\<lparr>fs := (fs w)(path_gz \<mapsto> gzip_compress lib (clock w) b)\<rparr>;
                 w = w\<lparr>fs := (fs w)(p := None)\<rparr>
             in (Inr path_gz, w))"

subsection \<open>The master index patcher\<close>

text \<open>\<^verbatim>\<open>n * "  "\<close>: nothing when \<open>n\<close> is not positive.\<close>

definition spaces :: "int \<Rightarrow> string" where
  "spaces n = concat (replicate (nat n) ''  '')"

definition set_tail :: "string \<Rightarrow> element \<Rightarrow> element" where
  "set_tail s e = Element (el_tag e) (el_attrib e) (el_text e) (Some s) (el_children e)"

text \<open>\<^verbatim>\<open>elems[-1].tail = s\<close>, for a list that is not empty.\<close>

definition set_last_tail :: "string \<Rightarrow> element list \<Rightarrow> element list" where
  "set_last_tail s es = butlast es @ [set_tail s (last es)]"

fun indent :: "element \<Rightarrow> int \<Rightarrow> element" where
  "indent (Element t a tx ta cs) level =
     (if cs \<noteq> [] then
        Element t a
          (Some (''\<newline>'' @ spaces (level + 1)))
          (Some (''\<newline>'' @ spaces (level - 1)))
          (set_last_tail (''\<newline>'' @ spaces level)
             (map (\<lambda>subelem. indent subelem (level + 1)) cs))
      else Element t a tx (Some (''\<newline>'' @ spaces level)) cs)"

text \<open>\<^verbatim>\<open>ET.SubElement\<close> makes an element with no text, no tail and no children.\<close>

definition SubElement :: "string \<Rightarrow> (string \<times> string) list \<Rightarrow> element" where
  "SubElement t a = Element t a None None []"

definition with_text :: "string \<Rightarrow> element \<Rightarrow> element" where
  "with_text s e = Element (el_tag e) (el_attrib e) (Some s) (el_tail e) (el_children e)"

definition repo_data_tag :: string where
  "repo_data_tag = ''{http://linux.duke.edu/metadata/repo}data''"

definition findall :: "string \<Rightarrow> element \<Rightarrow> element list" where
  "findall t root = [e \<leftarrow> el_children root. el_tag e = t]"

text \<open>
  The loop over the data entries of the index: \<^verbatim>\<open>e.attrib["type"]\<close> raises
  \<^verbatim>\<open>KeyError\<close> on an entry with no type, and an entry of type \<^verbatim>\<open>imadata\<close> prints
  the message and exits.
\<close>

fun check_present :: "element list \<Rightarrow> world \<Rightarrow> (error + unit) \<times> world" where
  "check_present [] w = (Inr (), w)"
| "check_present (e # es) w =
     (case map_of (el_attrib e) ''type'' of
        None \<Rightarrow> (Inl KeyError, w)
      | Some ty \<Rightarrow>
          if ty = ''imadata''
          then (Inl (SystemExit (- 1)),
                w\<lparr>stdout := stdout w @ [''ERROR: data type imadata already present'']\<rparr>)
          else check_present es w)"

text \<open>The entry that \<^verbatim>\<open>add_repomd\<close> builds, before indentation.\<close>

definition data_entry ::
  "path \<Rightarrow> string \<Rightarrow> nat \<Rightarrow> string \<Rightarrow> nat \<Rightarrow> int \<Rightarrow> element" where
  "data_entry data open_checksum open_size checksum size' timestamp =
     Element ''data'' [(''type'', ''imadata'')] None None
       [with_text checksum (SubElement ''checksum'' [(''type'', ''sha256'')]),
        with_text open_checksum (SubElement ''open-checksum'' [(''type'', ''sha256'')]),
        SubElement ''location''
          [(''href'', ''repodata/'' @ checksum @ ''_'' @ path_name data)],
        with_text (str_int timestamp) (SubElement ''timestamp'' []),
        with_text (str_nat size') (SubElement ''size'' []),
        with_text (str_nat open_size) (SubElement ''open-size'' [])]"

text \<open>
  \<^verbatim>\<open>add_repomd\<close>. The tail of the last entry of the index is set before the new
  entry is appended; \<^verbatim>\<open>root[-1]\<close> raises \<^verbatim>\<open>IndexError\<close> on a root with no
  children. The index file is written in the last statement only.
\<close>

definition add_repomd ::
  "library \<Rightarrow> path \<Rightarrow> path \<Rightarrow> string \<Rightarrow> nat \<Rightarrow> string \<Rightarrow> nat \<Rightarrow> int \<Rightarrow> world
     \<Rightarrow> (error + unit) \<times> world" where
  "add_repomd lib repository data open_checksum open_size checksum size' timestamp w =
     (let repomd = repository @ [''repodata'', ''repomd.xml'']
      in case fs w repomd of
           None \<Rightarrow> (Inl OSError, w)
         | Some bytes \<Rightarrow>
             (case ET_parse lib bytes of
                None \<Rightarrow> (Inl ParseError, w)
              | Some root \<Rightarrow>
                  (case check_present (findall repo_data_tag root) w of
                     (Inl e, w) \<Rightarrow> (Inl e, w)
                   | (Inr u, w) \<Rightarrow>
                       if el_children root = [] then (Inl IndexError, w)
                       else
                         let entries = set_last_tail ''\<newline>  '' (el_children root);
                             data_element =
                               data_entry data open_checksum open_size checksum size' timestamp;
                             data_element = indent data_element 1;
                             root = Element (el_tag root) (el_attrib root) (el_text root)
                                      (el_tail root) (entries @ [data_element])
                         in (Inr (), w\<lparr>fs := (fs w)(repomd \<mapsto> ET_write lib root)\<rparr>))))"

subsection \<open>The program\<close>

record args =
  repository :: path
  jobs :: int
  modify :: bool

text \<open>
  The registration path of the main program, from \<^verbatim>\<open>file_hash(imadata)\<close> to
  \<^verbatim>\<open>add_repomd\<close>. The path \<^verbatim>\<open>imadata_gz\<close> is not changed by the renaming of the
  file: \<^verbatim>\<open>add_repomd\<close> receives the name from before.
\<close>

definition register :: "library \<Rightarrow> args \<Rightarrow> path \<Rightarrow> world \<Rightarrow> (error + unit) \<times> world" where
  "register lib a imadata w =
     (case file_hash lib imadata w of
        Inl e \<Rightarrow> (Inl e, w)
      | Inr open_checksum \<Rightarrow>
     (case st_size imadata w of
        Inl e \<Rightarrow> (Inl e, w)
      | Inr open_size \<Rightarrow>
     (case gzip_file lib imadata imadata w of
        (Inl e, w) \<Rightarrow> (Inl e, w)
      | (Inr imadata_gz, w) \<Rightarrow>
     (case file_hash lib imadata_gz w of
        Inl e \<Rightarrow> (Inl e, w)
      | Inr checksum \<Rightarrow>
     (case st_size imadata_gz w of
        Inl e \<Rightarrow> (Inl e, w)
      | Inr size' \<Rightarrow>
     (case st_ctime imadata_gz w of
        Inl e \<Rightarrow> (Inl e, w)
      | Inr timestamp \<Rightarrow>
     (case path_rename imadata_gz
             (with_name imadata_gz (checksum @ ''-'' @ path_name imadata_gz)) w of
        (Inl e, w) \<Rightarrow> (Inl e, w)
      | (Inr u, w) \<Rightarrow>
          add_repomd lib (repository a) imadata_gz open_checksum open_size checksum size'
            timestamp w)))))))"

definition main :: "library \<Rightarrow> args \<Rightarrow> world \<Rightarrow> (error + unit) \<times> world" where
  "main lib a w =
     (case analyze_all lib (repository a) (jobs a) w of
        Inl e \<Rightarrow> (Inl e, w)
      | Inr packages \<Rightarrow>
          (case imadata_xml (repository a) packages w of
             (imadata, w) \<Rightarrow>
               if modify a then register lib a imadata w else (Inr (), w)))"

subsection \<open>Reading the document\<close>

text \<open>The strings that one pass of the loop writes for a package.\<close>

definition package_writes :: "package \<Rightarrow> string list" where
  "package_writes pkg =
     package_open pkg # version_elem pkg # map (\<lambda>(fname, hash). file_elem fname hash) (files pkg)
       @ [package_close]"

text \<open>A string written to the document is the start tag of a package element.\<close>

definition is_package_open :: "string \<Rightarrow> bool" where
  \<open>is_package_open el = (take 9 el = ''<package '')\<close>

text \<open>A string written to the document is a version element.\<close>

definition is_version_elem :: "string \<Rightarrow> bool" where
  \<open>is_version_elem el = (take 18 el = ''  <version epoch="'')\<close>

text \<open>A string written to the document is a file element.\<close>

definition is_file_elem :: "string \<Rightarrow> bool" where
  \<open>is_file_elem el = (take 14 el = ''  <file hash="'')\<close>

text \<open>The \<^verbatim>\<open>href\<close> attributes of the location elements of an index entry.\<close>

definition location_href :: "element \<Rightarrow> string list" where
  "location_href e =
     concat (map (\<lambda>c. map snd [kv \<leftarrow> el_attrib c. fst kv = ''href''])
       [c \<leftarrow> el_children e. el_tag c = ''location''])"

text \<open>
  An ampersand with no semicolon after it. In a well-formed XML document an ampersand
  outside comments, processing instructions and CDATA sections starts a reference,
  which a semicolon ends (XML 1.0, sections 2.4 and 4.1); a document with no comment, no
  CDATA section and no processing instruction after its first line that has such an
  ampersand is not well-formed.
\<close>

fun bare_ampersand :: "string \<Rightarrow> bool" where
  "bare_ampersand [] = False"
| "bare_ampersand (c # cs) = (c = CHR ''&'' \<and> CHR '';'' \<notin> set cs \<or> bare_ampersand cs)"

subsection \<open>Concrete inputs\<close>

text \<open>
  A noarch package \<open>a\<close> with no epoch and two files, one of them with no digest; its
  source package, of the same name; and a source package \<open>b\<close> built on x86_64.
\<close>

definition digest_a :: string where
  "digest_a = replicate 64 (CHR ''a'')"

definition digest_b :: string where
  "digest_b = replicate 64 (CHR ''b'')"

definition hdr_a :: hdr where
  "hdr_a =
     \<lparr> RPMTAG_NAME = ''a'', RPMTAG_ARCH = ''noarch'', RPMTAG_SOURCEPACKAGE = None,
       RPMTAG_EPOCH = None, RPMTAG_VERSION = ''1.0'', RPMTAG_RELEASE = ''1'',
       rpm_files = [(''/usr/bin/a'', digest_a), (''/usr/share/a'', zero_digest)] \<rparr>"

definition hdr_b :: hdr where
  "hdr_b =
     \<lparr> RPMTAG_NAME = ''b'', RPMTAG_ARCH = ''x86_64'', RPMTAG_SOURCEPACKAGE = Some 1,
       RPMTAG_EPOCH = Some 2, RPMTAG_VERSION = ''2.0'', RPMTAG_RELEASE = ''1'',
       rpm_files = [(''b.spec'', digest_b)] \<rparr>"

definition pkg_a :: package where
  "pkg_a =
     \<lparr> name = ''a'', arch = ''noarch'', src = None, epoch = None, ver = ''1.0'', rel = ''1'',
       files = [(''/usr/bin/a'', digest_a)] \<rparr>"

definition pkg_a_src :: package where
  "pkg_a_src =
     \<lparr> name = ''a'', arch = ''noarch'', src = Some 1, epoch = None, ver = ''1.0'', rel = ''1'',
       files = [] \<rparr>"

definition pkg_b :: package where
  "pkg_b =
     \<lparr> name = ''b'', arch = ''x86_64'', src = Some 1, epoch = Some 2, ver = ''2.0'', rel = ''1'',
       files = [(''b.spec'', digest_b)] \<rparr>"

text \<open>
  A repository with the two packages, the same repository with a third archive that is
  not an RPM, and an empty repository; a library whose header reader knows the two
  packages.
\<close>

definition demo_repo :: path where
  "demo_repo = [''srv'', ''repo'']"

definition rpm_a :: path where
  "rpm_a = demo_repo @ [''noarch'', ''a-1.0-1.noarch.rpm'']"

definition rpm_b :: path where
  "rpm_b = demo_repo @ [''src'', ''b-2.0-1.src.rpm'']"

definition rpm_broken :: path where
  "rpm_broken = demo_repo @ [''broken.rpm'']"

definition repomd_path :: path where
  "repomd_path = demo_repo @ [''repodata'', ''repomd.xml'']"

definition demo_index :: element where
  "demo_index =
     Element ''{http://linux.duke.edu/metadata/repo}repomd'' [] (Some ''\<newline>  '') None
       [Element repo_data_tag [(''type'', ''primary'')] None (Some ''\<newline>'') []]"

definition demo_index_registered :: element where
  "demo_index_registered =
     Element ''{http://linux.duke.edu/metadata/repo}repomd'' [] (Some ''\<newline>  '') None
       [Element repo_data_tag [(''type'', ''primary'')] None (Some ''\<newline>  '') [],
        Element repo_data_tag [(''type'', ''imadata'')] None (Some ''\<newline>'') []]"

definition demo_lib :: library where
  "demo_lib =
     \<lparr> glob = (\<lambda>files repo pattern. [p \<leftarrow> [rpm_b, rpm_a, rpm_broken]. files p \<noteq> None]),
       hdrFromFdno = (\<lambda>bytes. if bytes = ''rpm b'' then Some hdr_b
                               else if bytes = ''rpm a'' then Some hdr_a else None),
       sha256_hexdigest = (\<lambda>bytes. if take 2 bytes = ''gz'' then ''c0ffee'' else ''d0c''),
       gzip_compress = (\<lambda>t bytes. ''gz '' @ str_int t @ '' '' @ bytes),
       ET_parse = (\<lambda>bytes. if bytes = ''index'' then Some demo_index
                            else if bytes = ''registered'' then Some demo_index_registered
                            else None),
       ET_write = (\<lambda>root. concat (map el_tag (el_children root))) \<rparr>"

definition std_fds :: fdtable where
  "std_fds = [(0, [''dev'', ''tty'']), (1, [''dev'', ''tty'']), (2, [''dev'', ''tty''])]"

definition demo_world :: world where
  "demo_world =
     \<lparr> fs = [rpm_b \<mapsto> ''rpm b'', rpm_a \<mapsto> ''rpm a'', repomd_path \<mapsto> ''index''],
       open_fds = std_fds, stdout = [], clock = 1700000000 \<rparr>"

definition broken_world :: world where
  "broken_world = demo_world\<lparr>fs := (fs demo_world)(rpm_broken \<mapsto> ''not an rpm'')\<rparr>"

definition empty_world :: world where
  "empty_world =
     \<lparr> fs = [repomd_path \<mapsto> ''index''], open_fds = std_fds, stdout = [], clock = 1700000000 \<rparr>"

definition registered_world :: world where
  "registered_world = demo_world\<lparr>fs := (fs demo_world)(repomd_path \<mapsto> ''registered'')\<rparr>"

definition demo_args :: args where
  "demo_args = \<lparr> repository = demo_repo, jobs = 2, modify = False \<rparr>"

text \<open>A record with characters that XML reserves in its name, version and release.\<close>

definition pkg_amp :: package where
  \<open>pkg_amp =
     \<lparr> name = ''R&D'', arch = ''noarch'', src = None, epoch = None, ver = ''1<2'',
       rel = ''"'', files = [] \<rparr>\<close>

definition register_args :: args where
  "register_args = \<lparr> repository = demo_repo, jobs = 2, modify = True \<rparr>"

section \<open>Properties\<close>

subsection \<open>The document as a sequence of elements\<close>

lemma write_files_eq:
  "foldl (\<lambda>f (fname, hash). f @ [file_elem fname hash]) f fl
     = f @ map (\<lambda>(fname, hash). file_elem fname hash) fl"
  by (induction fl arbitrary: f) (auto split: prod.splits)

lemma write_package_eq: "write_package f pkg = f @ package_writes pkg"
  by (simp add: write_package_def package_writes_def write_files_eq)

lemma write_packages_eq:
  "foldl write_package f pkgs = f @ concat (map package_writes pkgs)"
  by (induction pkgs arbitrary: f) (simp_all add: write_package_eq)

lemma imadata_writes_eq:
  "imadata_writes pkgs =
     xml_prolog # imadata_open (length pkgs)
       # concat (map package_writes (py_sorted name pkgs)) @ [imadata_close]"
  by (simp add: imadata_writes_def write_packages_eq)

lemma is_package_open_simps:
  "is_package_open (package_open pkg)"
  "\<not> is_package_open (version_elem pkg)"
  "\<not> is_package_open (file_elem n h)"
  "\<not> is_package_open package_close"
  "\<not> is_package_open xml_prolog"
  "\<not> is_package_open (imadata_open k)"
  "\<not> is_package_open imadata_close"
  by (simp_all add: is_package_open_def package_open_def version_elem_def file_elem_def
      package_close_def xml_prolog_def imadata_open_def imadata_close_def)

lemma filter_package_writes:
  "filter is_package_open (package_writes pkg) = [package_open pkg]"
  by (auto simp: package_writes_def is_package_open_simps filter_empty_conv split: prod.splits)

lemma filter_concat_package_writes:
  "filter is_package_open (concat (map package_writes ps)) = map package_open ps"
  by (induction ps) (simp_all add: filter_package_writes)

lemma package_tags_sorted:
  "filter is_package_open (imadata_writes pkgs) = map package_open (py_sorted name pkgs)"
  by (simp add: imadata_writes_eq is_package_open_simps filter_concat_package_writes)

lemma is_version_elem_simps:
  "\<not> is_version_elem (package_open pkg)"
  "is_version_elem (version_elem pkg)"
  "\<not> is_version_elem (file_elem n h)"
  "\<not> is_version_elem package_close"
  "\<not> is_version_elem xml_prolog"
  "\<not> is_version_elem (imadata_open k)"
  "\<not> is_version_elem imadata_close"
  by (simp_all add: is_version_elem_def package_open_def version_elem_def file_elem_def
      package_close_def xml_prolog_def imadata_open_def imadata_close_def)

lemma filter_version_package_writes:
  "filter is_version_elem (package_writes pkg) = [version_elem pkg]"
  by (auto simp: package_writes_def is_version_elem_simps filter_empty_conv split: prod.splits)

lemma filter_version_concat:
  "filter is_version_elem (concat (map package_writes ps)) = map version_elem ps"
  by (induction ps) (simp_all add: filter_version_package_writes)

lemma version_elems_sorted:
  "filter is_version_elem (imadata_writes pkgs) = map version_elem (py_sorted name pkgs)"
  by (simp add: imadata_writes_eq is_version_elem_simps filter_version_concat)

lemma str_nat_0: "str_nat 0 = ''0''"
  by (simp add: str_nat.simps digit_char_def)

lemma str_int_0: "str_int 0 = ''0''"
  by (simp add: str_int_def str_nat_0)

lemma set_py_sorted: "set (py_sorted key xs) = set xs"
  by (simp add: py_sorted_def)

lemma package_writes_in_document:
  "pkg \<in> set pkgs \<Longrightarrow> set (package_writes pkg) \<subseteq> set (imadata_writes pkgs)"
  by (auto simp: imadata_writes_eq set_py_sorted)


subsection \<open>Order of the package elements\<close>

text \<open>
  Two lists that hold the same items, with the items of each key in the same order, sort
  to the same list.
\<close>

lemma py_sorted_unique:
  assumes "mset ys = mset xs"
    and "\<And>k. filter (\<lambda>x. key x = k) ys = filter (\<lambda>x. key x = k) xs"
  shows "py_sorted key ys = py_sorted key xs"
  unfolding py_sorted_def
proof (rule properties_for_sort_key)
  show "mset (sort_key key xs) = mset ys" using assms(1) by simp
next
  fix k
  have "filter (\<lambda>x. key x = key k) (sort_key key xs) = filter (\<lambda>x. key x = key k) ys"
    using assms(2) [of "key k"] sort_key_stable [of key "key k" xs] by simp
  moreover have "(\<lambda>x. key k = key x) = (\<lambda>x. key x = key k)" by auto
  ultimately show "filter (\<lambda>x. key k = key x) (sort_key key xs) = filter (\<lambda>x. key k = key x) ys"
    by simp
next
  show "sorted (map key (sort_key key xs))" by simp
qed

text \<open>
  Claim C1. The start tags of the package elements of the document are those of the
  records sorted by name, ascending; the sort keeps the records of one name in the order
  of the input; and two inputs that hold the same records and agree on the order of the
  records of every name, as two discovery orders of records with distinct names do, give
  the same document.
\<close>

theorem builder_sorted_by_name:
  "filter is_package_open (imadata_writes pkgs) = map package_open (py_sorted name pkgs)
   \<and> sorted (map name (py_sorted name pkgs))
   \<and> mset (py_sorted name pkgs) = mset pkgs
   \<and> (\<forall>k. [p \<leftarrow> py_sorted name pkgs. name p = k] = [p \<leftarrow> pkgs. name p = k])
   \<and> (mset pkgs' = mset pkgs
        \<and> (\<forall>k. [p \<leftarrow> pkgs'. name p = k] = [p \<leftarrow> pkgs. name p = k])
      \<longrightarrow> imadata_writes pkgs' = imadata_writes pkgs)"
proof -
  have "imadata_writes pkgs' = imadata_writes pkgs"
    if "mset pkgs' = mset pkgs" "\<forall>k. [p \<leftarrow> pkgs'. name p = k] = [p \<leftarrow> pkgs. name p = k]"
  proof -
    have "py_sorted name pkgs' = py_sorted name pkgs"
      using that by (intro py_sorted_unique) simp_all
    moreover have "length pkgs' = length pkgs"
      using that(1) by (rule mset_eq_length)
    ultimately show ?thesis by (simp add: imadata_writes_eq)
  qed
  then show ?thesis
    by (simp add: package_tags_sorted py_sorted_def sort_key_stable)
qed

theorem builder_sorted_by_name_witness:
  "mset [pkg_a, pkg_a_src, pkg_b] = mset [pkg_b, pkg_a, pkg_a_src]
   \<and> imadata_writes [pkg_a, pkg_a_src, pkg_b] = imadata_writes [pkg_b, pkg_a, pkg_a_src]"
proof -
  have m: "mset [pkg_a, pkg_a_src, pkg_b] = mset [pkg_b, pkg_a, pkg_a_src]"
    by simp
  have f: "\<forall>k. [p \<leftarrow> [pkg_a, pkg_a_src, pkg_b]. name p = k]
             = [p \<leftarrow> [pkg_b, pkg_a, pkg_a_src]. name p = k]"
    by (simp add: pkg_a_def pkg_a_src_def pkg_b_def)
  show ?thesis
    using m f builder_sorted_by_name [of "[pkg_b, pkg_a, pkg_a_src]" "[pkg_a, pkg_a_src, pkg_b]"]
    by blast
qed

text \<open>
  Records of one name keep the order of the input, so that the document does depend on
  the order in which a package and its source package are found.
\<close>

lemma tie_order_matters:
  "imadata_writes [pkg_a, pkg_a_src] \<noteq> imadata_writes [pkg_a_src, pkg_a]"
  by (simp add: imadata_writes_eq py_sorted_def package_writes_def pkg_a_def pkg_a_src_def
      package_open_def)


subsection \<open>Source packages and absent epochs\<close>

text \<open>
  Claim C6. The start tags of the package elements of the document are, in the order of
  the sorted records, one per record, with the attribute \<^verbatim>\<open>arch="src"\<close> for a record
  whose source flag is set, whatever its architecture, and with the architecture of the
  record otherwise.
\<close>

theorem source_arch:
  \<open>filter is_package_open (imadata_writes pkgs) =
     map (\<lambda>pkg. ''<package name="'' @ name pkg @ ''" arch="''
                  @ (if truthy (src pkg) then ''src'' else arch pkg) @ ''">\<newline>'')
       (py_sorted name pkgs)
   \<and> (\<forall>pkg \<in> set pkgs.
         (truthy (src pkg) \<longrightarrow>
            ''<package name="'' @ name pkg @ ''" arch="src">\<newline>'' \<in> set (imadata_writes pkgs))
       \<and> (\<not> truthy (src pkg) \<longrightarrow>
            ''<package name="'' @ name pkg @ ''" arch="'' @ arch pkg @ ''">\<newline>''
              \<in> set (imadata_writes pkgs)))\<close>
proof (intro conjI ballI impI)
  have "map package_open (py_sorted name pkgs) =
     map (\<lambda>pkg. ''<package name=\"'' @ name pkg @ ''\" arch=\"''
                  @ (if truthy (src pkg) then ''src'' else arch pkg) @ ''\">\<newline>'')
       (py_sorted name pkgs)"
    by (simp add: package_open_def)
  then show "filter is_package_open (imadata_writes pkgs) =
     map (\<lambda>pkg. ''<package name=\"'' @ name pkg @ ''\" arch=\"''
                  @ (if truthy (src pkg) then ''src'' else arch pkg) @ ''\">\<newline>'')
       (py_sorted name pkgs)"
    by (simp only: package_tags_sorted)
next
  fix pkg assume "pkg \<in> set pkgs" and s: "truthy (src pkg)"
  then have "package_open pkg \<in> set (imadata_writes pkgs)"
    using package_writes_in_document [of pkg pkgs] by (auto simp: package_writes_def)
  then show "''<package name=\"'' @ name pkg @ ''\" arch=\"src\">\<newline>'' \<in> set (imadata_writes pkgs)"
    using s by (simp add: package_open_def)
next
  fix pkg assume "pkg \<in> set pkgs" and s: "\<not> truthy (src pkg)"
  then have "package_open pkg \<in> set (imadata_writes pkgs)"
    using package_writes_in_document [of pkg pkgs] by (auto simp: package_writes_def)
  then show "''<package name=\"'' @ name pkg @ ''\" arch=\"'' @ arch pkg @ ''\">\<newline>''
      \<in> set (imadata_writes pkgs)"
    using s by (simp add: package_open_def)
qed

theorem source_arch_witness:
  \<open>pkg_b \<in> set [pkg_b, pkg_a] \<and> truthy (src pkg_b) \<and> arch pkg_b = ''x86_64''
   \<and> ''<package name="b" arch="src">\<newline>'' \<in> set (imadata_writes [pkg_b, pkg_a])
   \<and> pkg_a \<in> set [pkg_b, pkg_a] \<and> \<not> truthy (src pkg_a)
   \<and> ''<package name="a" arch="noarch">\<newline>'' \<in> set (imadata_writes [pkg_b, pkg_a])\<close>
  using source_arch [of "[pkg_b, pkg_a]"]
  by (simp add: pkg_a_def pkg_b_def)

text \<open>
  Claim C7. The version elements of the document are, in the order of the sorted records,
  one per record; a record with no epoch has \<^verbatim>\<open>epoch="0"\<close> in its version element.
\<close>

theorem absent_epoch:
  \<open>filter is_version_elem (imadata_writes pkgs) =
     map (\<lambda>pkg. ''  <version epoch="'' @ (case epoch pkg of None \<Rightarrow> ''0'' | Some e \<Rightarrow> str_int e)
                  @ ''" ver="'' @ ver pkg @ ''" rel="'' @ rel pkg @ ''"/>\<newline>'')
       (py_sorted name pkgs)
   \<and> (\<forall>pkg \<in> set pkgs. epoch pkg = None \<longrightarrow>
         ''  <version epoch="0" ver="'' @ ver pkg @ ''" rel="'' @ rel pkg @ ''"/>\<newline>''
           \<in> set (imadata_writes pkgs))\<close>
proof (intro conjI ballI impI)
  have e: "str_int (or0 x) = (case x of None \<Rightarrow> ''0'' | Some e \<Rightarrow> str_int e)" for x
    by (cases x) (auto simp: or0_def str_int_0)
  have "map version_elem (py_sorted name pkgs) =
     map (\<lambda>pkg. ''  <version epoch=\"'' @ (case epoch pkg of None \<Rightarrow> ''0'' | Some e \<Rightarrow> str_int e)
                  @ ''\" ver=\"'' @ ver pkg @ ''\" rel=\"'' @ rel pkg @ ''\"/>\<newline>'')
       (py_sorted name pkgs)"
    by (simp add: version_elem_def e)
  then show "filter is_version_elem (imadata_writes pkgs) =
     map (\<lambda>pkg. ''  <version epoch=\"'' @ (case epoch pkg of None \<Rightarrow> ''0'' | Some e \<Rightarrow> str_int e)
                  @ ''\" ver=\"'' @ ver pkg @ ''\" rel=\"'' @ rel pkg @ ''\"/>\<newline>'')
       (py_sorted name pkgs)"
    by (simp only: version_elems_sorted)
next
  fix pkg assume "pkg \<in> set pkgs" and s: "epoch pkg = None"
  then have "version_elem pkg \<in> set (imadata_writes pkgs)"
    using package_writes_in_document [of pkg pkgs] by (auto simp: package_writes_def)
  then show "''  <version epoch=\"0\" ver=\"'' @ ver pkg @ ''\" rel=\"'' @ rel pkg @ ''\"/>\<newline>''
      \<in> set (imadata_writes pkgs)"
    using s by (simp add: version_elem_def or0_def str_int_0)
qed

theorem absent_epoch_witness:
  \<open>pkg_a \<in> set [pkg_b, pkg_a] \<and> epoch pkg_a = None
   \<and> ''  <version epoch="0" ver="1.0" rel="1"/>\<newline>'' \<in> set (imadata_writes [pkg_b, pkg_a])\<close>
  using absent_epoch [of "[pkg_b, pkg_a]"]
  by (simp add: pkg_a_def pkg_b_def)

subsection \<open>Determinism of the builder\<close>

text \<open>
  Claim C5. The content of the document that \<^verbatim>\<open>imadata_xml\<close> writes is a function of
  the list of records alone: it is the same whatever the files on disk, the clock, the
  open descriptors, the output so far and the repository path are.
\<close>

theorem builder_deterministic:
  "fs (snd (imadata_xml repo pkgs w)) (fst (imadata_xml repo pkgs w))
     = Some (concat (imadata_writes pkgs))
   \<and> fs (snd (imadata_xml repo pkgs w)) (fst (imadata_xml repo pkgs w))
     = fs (snd (imadata_xml repo' pkgs w')) (fst (imadata_xml repo' pkgs w'))"
  by (simp add: imadata_xml_def Let_def)


subsection \<open>The extractor and the scanner\<close>

text \<open>
  What \<^verbatim>\<open>analyze\<close> returns and what it leaves behind: nothing changes when the file
  cannot be opened or when the header is read, and the descriptor that was opened stays
  in the table when the header cannot be read.
\<close>

lemma lowest_unused_fresh: "lowest_unused used \<notin> set used"
proof -
  let ?c = "[n \<leftarrow> [0 ..< Suc (length used)]. n \<notin> set used]"
  have "?c \<noteq> []"
  proof
    assume "?c = []"
    then have "\<forall>n \<in> set [0 ..< Suc (length used)]. \<not> n \<notin> set used"
      unfolding filter_empty_conv .
    then have "{0 ..< Suc (length used)} \<subseteq> set used"
      unfolding set_upt by blast
    then have "card {0 ..< Suc (length used)} \<le> card (set used)"
      by (intro card_mono) simp_all
    moreover have "card (set used) \<le> length used"
      by (rule card_length)
    ultimately show False by simp
  qed
  then have "hd ?c \<in> set ?c"
    by (rule hd_in_set)
  then have "hd ?c \<notin> set used"
    unfolding set_filter by blast
  then show ?thesis
    unfolding lowest_unused_def .
qed

lemma close_fresh:
  "fd \<notin> set (map fst t) \<Longrightarrow> [(k, p) \<leftarrow> t. k \<noteq> fd] = t"
  by (induction t) auto

lemma analyze_eq:
  "analyze lib p w =
     (case fs w p of
        None \<Rightarrow> (Inl OSError, w)
      | Some b \<Rightarrow>
          (case hdrFromFdno lib b of
             None \<Rightarrow> (Inl RpmError,
                       w\<lparr>open_fds := (lowest_unused (map fst (open_fds w)), p) # open_fds w\<rparr>)
           | Some h \<Rightarrow> (Inr (info_of_hdr h), w)))"
proof (cases "fs w p")
  case None
  then show ?thesis
    by (simp add: analyze_def os_open_def dom_def)
next
  case (Some b)
  have fresh: "[(k, q) \<leftarrow> open_fds w. k \<noteq> lowest_unused (map fst (open_fds w))] = open_fds w"
    by (rule close_fresh) (rule lowest_unused_fresh)
  show ?thesis
    using Some fresh
    by (cases "hdrFromFdno lib b")
      (simp_all add: analyze_def os_open_def dom_def Let_def fd_content_def os_close_def)
qed

lemma fs_analyze: "fs (snd (analyze lib p w)) = fs w"
  by (simp add: analyze_eq split: option.splits)

lemma fst_analyze_fs: "fs w' = fs w \<Longrightarrow> fst (analyze lib p w') = fst (analyze lib p w)"
  by (simp add: analyze_eq split: option.splits)

lemma pool_map_analyze:
  "fs w' = fs w \<Longrightarrow> fst (pool_map (analyze lib) ps w') = map (\<lambda>p. fst (analyze lib p w)) ps"
proof (induction ps arbitrary: w')
  case Nil
  then show ?case by simp
next
  case (Cons p ps)
  obtain r s where a: "analyze lib p w' = (r, s)" by (cases "analyze lib p w'")
  then have "fs s = fs w"
    using fs_analyze [of lib p w'] Cons.prems by simp
  then have "fst (pool_map (analyze lib) ps s) = map (\<lambda>p. fst (analyze lib p w)) ps"
    by (rule Cons.IH)
  moreover have "r = fst (analyze lib p w)"
    using a fst_analyze_fs [OF Cons.prems, of lib p] by simp
  ultimately show ?case
    using a by (cases "pool_map (analyze lib) ps s") simp
qed

lemma collect_fail: "\<exists>r \<in> set rs. isl r \<Longrightarrow> \<exists>e. collect rs = Inl e \<and> Inl e \<in> set rs"
  by (induction rs rule: collect.induct) (auto split: sum.splits)

lemma collect_ok: "\<forall>r \<in> set rs. \<not> isl r \<Longrightarrow> \<exists>xs. collect rs = Inr xs \<and> map Inr xs = rs"
  by (induction rs rule: collect.induct) (auto split: sum.splits)

lemma collect_Inr: "collect rs = Inr xs \<Longrightarrow> rs = map Inr xs"
  by (induction rs arbitrary: xs rule: collect.induct) (auto split: sum.splits)

lemma analyze_all_eq:
  "1 \<le> j \<Longrightarrow>
   analyze_all lib repo j w =
     collect (map (\<lambda>p. fst (analyze lib p w)) (glob lib (fs w) repo ''**/*.rpm''))"
  by (simp add: analyze_all_def pool_map_analyze)


text \<open>The concrete inputs, evaluated.\<close>

lemma demo_paths_distinct:
  "rpm_a \<noteq> rpm_b" "rpm_b \<noteq> rpm_a" "rpm_a \<noteq> rpm_broken" "rpm_broken \<noteq> rpm_a"
  "rpm_b \<noteq> rpm_broken" "rpm_broken \<noteq> rpm_b"
  "rpm_a \<noteq> repomd_path" "rpm_b \<noteq> repomd_path" "rpm_broken \<noteq> repomd_path"
  "repomd_path \<noteq> rpm_a" "repomd_path \<noteq> rpm_b" "repomd_path \<noteq> rpm_broken"
  by (simp_all add: rpm_a_def rpm_b_def rpm_broken_def repomd_path_def demo_repo_def)

lemma demo_fs:
  "fs demo_world rpm_a = Some ''rpm a''" "fs demo_world rpm_b = Some ''rpm b''"
  "fs demo_world rpm_broken = None"
  "fs broken_world rpm_a = Some ''rpm a''" "fs broken_world rpm_b = Some ''rpm b''"
  "fs broken_world rpm_broken = Some ''not an rpm''"
  "fs empty_world rpm_a = None" "fs empty_world rpm_b = None" "fs empty_world rpm_broken = None"
  by (simp_all add: demo_world_def broken_world_def empty_world_def demo_paths_distinct)

lemma demo_glob:
  "glob demo_lib (fs demo_world) r pat = [rpm_b, rpm_a]"
  "glob demo_lib (fs broken_world) r pat = [rpm_b, rpm_a, rpm_broken]"
  "glob demo_lib (fs empty_world) r pat = []"
  by (simp_all add: demo_lib_def demo_fs)

lemma demo_headers:
  "hdrFromFdno demo_lib ''rpm a'' = Some hdr_a"
  "hdrFromFdno demo_lib ''rpm b'' = Some hdr_b"
  "hdrFromFdno demo_lib ''not an rpm'' = None"
  by (simp_all add: demo_lib_def)

lemma lowest_unused_std: "lowest_unused (map fst std_fds) = 3"
  by (simp add: lowest_unused_def std_fds_def upt_rec)

lemma demo_open_fds:
  "open_fds demo_world = std_fds" "open_fds broken_world = std_fds"
  by (simp_all add: demo_world_def broken_world_def)

lemma demo_analyze:
  "fst (analyze demo_lib rpm_a demo_world) = Inr (info_of_hdr hdr_a)"
  "fst (analyze demo_lib rpm_b demo_world) = Inr (info_of_hdr hdr_b)"
  "fst (analyze demo_lib rpm_a broken_world) = Inr (info_of_hdr hdr_a)"
  "fst (analyze demo_lib rpm_b broken_world) = Inr (info_of_hdr hdr_b)"
  "fst (analyze demo_lib rpm_broken broken_world) = Inl RpmError"
  by (simp_all add: analyze_eq demo_fs demo_headers)

lemma demo_info:
  "info_of_hdr hdr_a = pkg_a" "info_of_hdr hdr_b = pkg_b"
  by (simp_all add: info_of_hdr_def hdr_a_def hdr_b_def pkg_a_def pkg_b_def
      digest_a_def digest_b_def zero_digest_def)

lemma imadata_writes_empty:
  \<open>imadata_writes [] = [xml_prolog, ''<imadata packages="0">\<newline>'', ''</imadata>'']\<close>
  by (simp add: imadata_writes_eq py_sorted_def imadata_open_def imadata_close_def str_nat_0)

text \<open>The document of the repository with the two packages.\<close>

lemma str_int_2: "str_int 2 = ''2''"
  by (simp add: str_int_def str_nat.simps digit_char_def)

lemma demo_document:
  \<open>concat (imadata_writes [pkg_b, pkg_a]) =
     ''<?xml version="1.0" encoding="UTF-8"?>\<newline><imadata packages="2">\<newline><package name="a" arch="noarch">\<newline>  <version epoch="0" ver="1.0" rel="1"/>\<newline>  <file hash="''
     @ digest_a @ ''">/usr/bin/a</file>\<newline></package>\<newline><package name="b" arch="src">\<newline>  <version epoch="2" ver="2.0" rel="1"/>\<newline>  <file hash="''
     @ digest_b @ ''">b.spec</file>\<newline></package>\<newline></imadata>''\<close>
  by (simp add: imadata_writes_eq py_sorted_def package_writes_def package_open_def
      version_elem_def file_elem_def package_close_def xml_prolog_def imadata_open_def
      imadata_close_def pkg_a_def pkg_b_def or0_def str_int_0 str_int_2 str_nat.simps
      digit_char_def)

text \<open>
  Claim C4, at an archive that opens and is not an RPM. The claim says that the
  descriptor is closed on every path out of \<^verbatim>\<open>analyze\<close>; here the header reader
  raises, \<^verbatim>\<open>os.close\<close> is not reached, and the call ends with descriptor 3 still
  open on the archive. The descriptor is still open after the next call of the worker.
\<close>

theorem descriptor_left_open:
  "open_fds broken_world = std_fds
   \<and> analyze demo_lib rpm_broken broken_world
       = (Inl RpmError, broken_world\<lparr>open_fds := (3, rpm_broken) # std_fds\<rparr>)
   \<and> snd (pool_map (analyze demo_lib) [rpm_broken, rpm_a] broken_world)
       = broken_world\<lparr>open_fds := (3, rpm_broken) # std_fds\<rparr>"
  by (simp add: analyze_eq demo_fs demo_headers lowest_unused_std demo_open_fds)

text \<open>
  Claim C8. With at least one worker: when the extraction of some archive fails, the
  scan fails with the error of a failed extraction, and the program stops with that error
  and leaves the world as it was, so no document is written; when no extraction fails,
  the scan returns one record per archive found, in the order found; and when no archive
  is found the scan returns the empty list, for which the document has
  \<^verbatim>\<open>packages="0"\<close> and no package element.
\<close>

theorem scanner_all_or_nothing:
  assumes "archives = glob lib (fs w) (repository a) ''**/*.rpm''" and "1 \<le> jobs a"
  shows
    \<open>((\<exists>p \<in> set archives. isl (fst (analyze lib p w))) \<longrightarrow>
        (\<exists>p \<in> set archives. \<exists>e. fst (analyze lib p w) = Inl e
           \<and> analyze_all lib (repository a) (jobs a) w = Inl e
           \<and> main lib a w = (Inl e, w)))
     \<and> ((\<forall>p \<in> set archives. \<not> isl (fst (analyze lib p w))) \<longrightarrow>
        (\<exists>pkgs. analyze_all lib (repository a) (jobs a) w = Inr pkgs
           \<and> length pkgs = length archives
           \<and> map Inr pkgs = map (\<lambda>p. fst (analyze lib p w)) archives))
     \<and> (archives = [] \<longrightarrow>
          analyze_all lib (repository a) (jobs a) w = Inr []
        \<and> imadata_writes [] = [xml_prolog, ''<imadata packages="0">\<newline>'', ''</imadata>'']
        \<and> (\<not> modify a \<longrightarrow>
             main lib a w =
               (Inr (), w\<lparr>fs := (fs w)(repository a @ [''repodata'', ''imadata.xml'']
                  \<mapsto> ''<?xml version="1.0" encoding="UTF-8"?>\<newline><imadata packages="0">\<newline></imadata>'')\<rparr>)))\<close>
proof -
  let ?rs = "map (\<lambda>p. fst (analyze lib p w)) archives"
  have all: "analyze_all lib (repository a) (jobs a) w = collect ?rs"
    using assms by (simp add: analyze_all_eq)
  have fails: "\<exists>p \<in> set archives. \<exists>e. fst (analyze lib p w) = Inl e
           \<and> analyze_all lib (repository a) (jobs a) w = Inl e
           \<and> main lib a w = (Inl e, w)"
    if "\<exists>p \<in> set archives. isl (fst (analyze lib p w))"
  proof -
    from that have "\<exists>r \<in> set ?rs. isl r" by auto
    then obtain e where e: "collect ?rs = Inl e" "Inl e \<in> set ?rs"
      using collect_fail by blast
    then obtain p where "p \<in> set archives" "fst (analyze lib p w) = Inl e" by auto
    moreover have "main lib a w = (Inl e, w)"
      using all e(1) by (simp add: main_def)
    ultimately show ?thesis using all e(1) by auto
  qed
  have ok: "\<exists>pkgs. analyze_all lib (repository a) (jobs a) w = Inr pkgs
           \<and> length pkgs = length archives
           \<and> map Inr pkgs = map (\<lambda>p. fst (analyze lib p w)) archives"
    if "\<forall>p \<in> set archives. \<not> isl (fst (analyze lib p w))"
  proof -
    from that have "\<forall>r \<in> set ?rs. \<not> isl r" by auto
    then obtain xs where xs: "collect ?rs = Inr xs" "map Inr xs = ?rs"
      using collect_ok by blast
    from xs(2) have "length xs = length archives"
      using length_map by metis
    with xs all show ?thesis by auto
  qed
  have none: "analyze_all lib (repository a) (jobs a) w = Inr []" if "archives = []"
    using all that by simp
  have doc: "main lib a w =
               (Inr (), w\<lparr>fs := (fs w)(repository a @ [''repodata'', ''imadata.xml'']
                  \<mapsto> ''<?xml version=\"1.0\" encoding=\"UTF-8\"?>\<newline><imadata packages=\"0\">\<newline></imadata>'')\<rparr>)"
    if "archives = []" "\<not> modify a"
    using none [OF that(1)] that(2)
    by (simp add: main_def imadata_xml_def Let_def imadata_writes_empty xml_prolog_def)
  show ?thesis
    using fails ok none doc imadata_writes_empty by blast
qed

theorem scanner_all_or_nothing_witness:
  "isl (fst (analyze demo_lib rpm_broken broken_world))
   \<and> analyze_all demo_lib demo_repo 2 broken_world = Inl RpmError
   \<and> main demo_lib demo_args broken_world = (Inl RpmError, broken_world)
   \<and> \<not> isl (fst (analyze demo_lib rpm_a demo_world))
   \<and> \<not> isl (fst (analyze demo_lib rpm_b demo_world))
   \<and> analyze_all demo_lib demo_repo 2 demo_world = Inr [pkg_b, pkg_a]
   \<and> glob demo_lib (fs empty_world) demo_repo ''**/*.rpm'' = []
   \<and> analyze_all demo_lib demo_repo 2 empty_world = Inr []
   \<and> fs (snd (main demo_lib demo_args empty_world)) (demo_repo @ [''repodata'', ''imadata.xml''])
       = Some (concat (imadata_writes []))"
proof -
  have a: "repository demo_args = demo_repo" "jobs demo_args = 2" "\<not> modify demo_args"
    by (simp_all add: demo_args_def)
  have 1: "analyze_all demo_lib demo_repo 2 broken_world = Inl RpmError
      \<and> main demo_lib demo_args broken_world = (Inl RpmError, broken_world)"
    using scanner_all_or_nothing [of "[rpm_b, rpm_a, rpm_broken]" demo_lib broken_world demo_args]
    by (auto simp: a demo_glob demo_analyze)
  have 2: "analyze_all demo_lib demo_repo 2 demo_world = Inr [pkg_b, pkg_a]"
    using scanner_all_or_nothing [of "[rpm_b, rpm_a]" demo_lib demo_world demo_args]
    by (auto simp: a demo_glob demo_analyze demo_info)
  have 3: "analyze_all demo_lib demo_repo 2 empty_world = Inr []
      \<and> fs (snd (main demo_lib demo_args empty_world)) (demo_repo @ [''repodata'', ''imadata.xml''])
       = Some (concat (imadata_writes []))"
    using scanner_all_or_nothing [of "[]" demo_lib empty_world demo_args]
    by (simp add: a demo_glob xml_prolog_def)
  show ?thesis
    using 1 2 3 by (simp add: demo_analyze demo_glob)
qed

subsection \<open>Files with no digest\<close>

lemma is_file_elem_simps:
  "\<not> is_file_elem (package_open pkg)"
  "\<not> is_file_elem (version_elem pkg)"
  "is_file_elem (file_elem n h)"
  "\<not> is_file_elem package_close"
  "\<not> is_file_elem xml_prolog"
  "\<not> is_file_elem (imadata_open k)"
  "\<not> is_file_elem imadata_close"
  by (simp_all add: is_file_elem_def package_open_def version_elem_def file_elem_def
      package_close_def xml_prolog_def imadata_open_def imadata_close_def)

lemma filter_file_package_writes:
  "filter is_file_elem (package_writes pkg) = map (\<lambda>(n, d). file_elem n d) (files pkg)"
proof -
  have "filter is_file_elem (map (\<lambda>(n, d). file_elem n d) fl) = map (\<lambda>(n, d). file_elem n d) fl"
    for fl
    by (induction fl) (auto simp: is_file_elem_simps)
  then show ?thesis
    by (simp add: package_writes_def is_file_elem_simps)
qed

lemma filter_file_concat:
  "filter is_file_elem (concat (map package_writes ps))
     = concat (map (\<lambda>pkg. map (\<lambda>(n, d). file_elem n d) (files pkg)) ps)"
  by (induction ps) (simp_all add: filter_file_package_writes)

lemma file_elems_sorted:
  "filter is_file_elem (imadata_writes pkgs)
     = concat (map (\<lambda>pkg. map (\<lambda>(n, d). file_elem n d) (files pkg)) (py_sorted name pkgs))"
  by (simp add: imadata_writes_eq is_file_elem_simps filter_file_concat)

lemma file_elem_digest:
  "file_elem n d = file_elem n' d' \<Longrightarrow> length d = length d' \<Longrightarrow> d = d'"
  by (simp add: file_elem_def)

lemma length_zero_digest: "length zero_digest = 64"
  by (simp add: zero_digest_def)

lemma analyze_Inr:
  assumes "fst (analyze lib p w) = Inr info"
  shows "\<exists>b h. fs w p = Some b \<and> hdrFromFdno lib b = Some h \<and> info = info_of_hdr h"
  using assms by (auto simp: analyze_eq split: option.splits)

lemma analyze_all_Inr:
  assumes "analyze_all lib repo j w = Inr pkgs" and "pkg \<in> set pkgs"
  shows "\<exists>p. fst (analyze lib p w) = Inr pkg"
proof -
  have j: "1 \<le> j"
    using assms(1) by (auto simp: analyze_all_def split: if_splits)
  then have "collect (map (\<lambda>p. fst (analyze lib p w)) (glob lib (fs w) repo ''**/*.rpm'')) = Inr pkgs"
    using assms(1) by (simp add: analyze_all_eq)
  then have "map (\<lambda>p. fst (analyze lib p w)) (glob lib (fs w) repo ''**/*.rpm'') = map Inr pkgs"
    by (rule collect_Inr)
  moreover have "Inr pkg \<in> set (map Inr pkgs)"
    using assms(2) by simp
  ultimately have "Inr pkg \<in> set (map (\<lambda>p. fst (analyze lib p w)) (glob lib (fs w) repo ''**/*.rpm''))"
    by simp
  then show ?thesis by auto
qed

text \<open>
  Claim C2. The record that \<^verbatim>\<open>analyze\<close> returns for a package holds a pair of path
  and digest exactly when the header has it and the digest is not the string of 64
  zeros. In the document built from the records of a scan, the file elements are those
  of the pairs of the records, in order; and when every digest kept is, as a digest is,
  64 characters long, no file element with the digest of 64 zeros is written.
\<close>

theorem zero_digest_excluded:
  "(fst (analyze lib p w) = Inr info \<longrightarrow>
      (\<exists>b h. fs w p = Some b \<and> hdrFromFdno lib b = Some h
         \<and> files info = [(n, d) \<leftarrow> rpm_files h. d \<noteq> zero_digest]
         \<and> (\<forall>n d. ((n, d) \<in> set (files info))
                = ((n, d) \<in> set (rpm_files h) \<and> d \<noteq> zero_digest))))
   \<and> (analyze_all lib repo j w = Inr pkgs \<longrightarrow>
        (\<forall>pkg \<in> set pkgs. \<forall>(n, d) \<in> set (files pkg). d \<noteq> zero_digest)
      \<and> filter is_file_elem (imadata_writes pkgs)
          = concat (map (\<lambda>pkg. map (\<lambda>(n, d). file_elem n d) (files pkg)) (py_sorted name pkgs))
      \<and> ((\<forall>pkg \<in> set pkgs. \<forall>(n, d) \<in> set (files pkg). length d = 64) \<longrightarrow>
            (\<forall>n. file_elem n zero_digest \<notin> set (imadata_writes pkgs))))"
proof (intro conjI impI)
  assume "fst (analyze lib p w) = Inr info"
  then obtain b h where "fs w p = Some b" "hdrFromFdno lib b = Some h" "info = info_of_hdr h"
    using analyze_Inr by blast
  then show "\<exists>b h. fs w p = Some b \<and> hdrFromFdno lib b = Some h
         \<and> files info = [(n, d) \<leftarrow> rpm_files h. d \<noteq> zero_digest]
         \<and> (\<forall>n d. ((n, d) \<in> set (files info))
                = ((n, d) \<in> set (rpm_files h) \<and> d \<noteq> zero_digest))"
    by (auto simp: info_of_hdr_def)
next
  assume all: "analyze_all lib repo j w = Inr pkgs"
  show nz: "\<forall>pkg \<in> set pkgs. \<forall>(n, d) \<in> set (files pkg). d \<noteq> zero_digest"
  proof (intro ballI)
    fix pkg x assume "pkg \<in> set pkgs" and x: "x \<in> set (files pkg)"
    then obtain p where "fst (analyze lib p w) = Inr pkg"
      using analyze_all_Inr [OF all] by blast
    then obtain h where "pkg = info_of_hdr h"
      using analyze_Inr by blast
    then show "case x of (n, d) \<Rightarrow> d \<noteq> zero_digest"
      using x by (auto simp: info_of_hdr_def)
  qed
  show "filter is_file_elem (imadata_writes pkgs)
          = concat (map (\<lambda>pkg. map (\<lambda>(n, d). file_elem n d) (files pkg)) (py_sorted name pkgs))"
    by (rule file_elems_sorted)
  show "\<forall>n. file_elem n zero_digest \<notin> set (imadata_writes pkgs)"
    if len: "\<forall>pkg \<in> set pkgs. \<forall>(n, d) \<in> set (files pkg). length d = 64"
  proof (intro allI notI)
    fix n assume "file_elem n zero_digest \<in> set (imadata_writes pkgs)"
    then have "file_elem n zero_digest \<in> set (filter is_file_elem (imadata_writes pkgs))"
      by (simp add: is_file_elem_simps)
    then obtain pkg n' d' where m: "pkg \<in> set pkgs" "(n', d') \<in> set (files pkg)"
      and e: "file_elem n zero_digest = file_elem n' d'"
      unfolding file_elems_sorted by (auto simp: set_py_sorted)
    have "length d' = 64" using len m by auto
    then have "zero_digest = d'"
      using e by (intro file_elem_digest [OF e]) (simp add: length_zero_digest)
    moreover have "d' \<noteq> zero_digest" using nz m by auto
    ultimately show False by simp
  qed
qed

lemma demo_analyze_all:
  "analyze_all demo_lib demo_repo 2 demo_world = Inr [pkg_b, pkg_a]"
  by (simp add: analyze_all_eq demo_glob demo_analyze demo_info)

theorem zero_digest_excluded_witness:
  "fst (analyze demo_lib rpm_a demo_world) = Inr pkg_a
   \<and> analyze_all demo_lib demo_repo 2 demo_world = Inr [pkg_b, pkg_a]
   \<and> rpm_files hdr_a = [(''/usr/bin/a'', digest_a), (''/usr/share/a'', zero_digest)]
   \<and> files pkg_a = [(''/usr/bin/a'', digest_a)]
   \<and> length digest_a = 64 \<and> length digest_b = 64
   \<and> file_elem ''/usr/share/a'' zero_digest \<notin> set (imadata_writes [pkg_b, pkg_a])"
proof -
  have 1: "fst (analyze demo_lib rpm_a demo_world) = Inr pkg_a"
    by (simp add: demo_analyze demo_info)
  have 2: "\<forall>pkg \<in> set [pkg_b, pkg_a]. \<forall>(n, d) \<in> set (files pkg). length d = 64"
    by (simp add: pkg_a_def pkg_b_def digest_a_def digest_b_def)
  have 3: "file_elem ''/usr/share/a'' zero_digest \<notin> set (imadata_writes [pkg_b, pkg_a])"
    using zero_digest_excluded [of demo_lib rpm_a demo_world pkg_a demo_repo 2 "[pkg_b, pkg_a]"]
      demo_analyze_all 2
    by blast
  show ?thesis
    using 1 3 demo_analyze_all
    by (simp add: hdr_a_def pkg_a_def digest_a_def digest_b_def)
qed

subsection \<open>An index that is registered already\<close>

lemma check_present_fs: "fs (snd (check_present es w)) = fs w"
  by (induction es w rule: check_present.induct) (auto split: option.splits)

lemma check_present_found:
  assumes "e \<in> set es" and "map_of (el_attrib e) ''type'' = Some ''imadata''"
  shows "isl (fst (check_present es w))"
  using assms by (induction es w rule: check_present.induct) (auto split: option.splits)

lemma check_present_exit:
  assumes "e \<in> set es" and "map_of (el_attrib e) ''type'' = Some ''imadata''"
    and "\<forall>e' \<in> set es. map_of (el_attrib e') ''type'' \<noteq> None"
  shows "check_present es w =
           (Inl (SystemExit (- 1)),
            w\<lparr>stdout := stdout w @ [''ERROR: data type imadata already present'']\<rparr>)"
  using assms by (induction es w rule: check_present.induct) (auto split: option.splits)

lemma add_repomd_aborts:
  assumes "fs w (repo @ [''repodata'', ''repomd.xml'']) = Some bytes"
    and "ET_parse lib bytes = Some root"
    and "check_present (findall repo_data_tag root) w = (Inl err, w')"
  shows "add_repomd lib repo data oc os c sz ts w = (Inl err, w')"
  using assms by (simp add: add_repomd_def Let_def)

text \<open>
  Claim C3. When the index has a data entry of type \<^verbatim>\<open>imadata\<close> among the children
  of its root, \<^verbatim>\<open>add_repomd\<close> ends with an error and no file has changed: the index
  has the bytes it had. When every data entry has a type, the error is the exit with
  status -1, after the message is printed.
\<close>

theorem duplicate_entry_rejected:
  assumes "fs w (repo @ [''repodata'', ''repomd.xml'']) = Some bytes"
    and "ET_parse lib bytes = Some root"
    and "e \<in> set (el_children root)" and "el_tag e = repo_data_tag"
    and "map_of (el_attrib e) ''type'' = Some ''imadata''"
  shows "isl (fst (add_repomd lib repo data oc os c sz ts w))
       \<and> fs (snd (add_repomd lib repo data oc os c sz ts w)) = fs w
       \<and> ((\<forall>e' \<in> set (el_children root).
              el_tag e' = repo_data_tag \<longrightarrow> map_of (el_attrib e') ''type'' \<noteq> None) \<longrightarrow>
            add_repomd lib repo data oc os c sz ts w =
              (Inl (SystemExit (- 1)),
               w\<lparr>stdout := stdout w @ [''ERROR: data type imadata already present'']\<rparr>))"
proof -
  let ?es = "findall repo_data_tag root"
  have mem: "e \<in> set ?es"
    using assms(3,4) by (simp add: findall_def)
  obtain r w' where cp: "check_present ?es w = (r, w')"
    by (cases "check_present ?es w")
  have "isl r"
    using check_present_found [OF mem assms(5), of w] cp by simp
  then obtain err where r: "r = Inl err"
    by (cases r) simp_all
  have ab: "add_repomd lib repo data oc os c sz ts w = (Inl err, w')"
    using add_repomd_aborts [OF assms(1,2)] cp r by simp
  have "fs w' = fs w"
    using check_present_fs [of ?es w] cp by simp
  moreover have "add_repomd lib repo data oc os c sz ts w =
              (Inl (SystemExit (- 1)),
               w\<lparr>stdout := stdout w @ [''ERROR: data type imadata already present'']\<rparr>)"
    if "\<forall>e' \<in> set (el_children root).
              el_tag e' = repo_data_tag \<longrightarrow> map_of (el_attrib e') ''type'' \<noteq> None"
  proof -
    from that have "\<forall>e' \<in> set ?es. map_of (el_attrib e') ''type'' \<noteq> None"
      by (simp add: findall_def)
    then show ?thesis
      using check_present_exit [OF mem assms(5), of w] add_repomd_aborts [OF assms(1,2)]
      by simp
  qed
  ultimately show ?thesis
    using ab by simp
qed

lemma registered_fs: "fs registered_world repomd_path = Some ''registered''"
  by (simp add: registered_world_def)

theorem duplicate_entry_rejected_witness:
  "fs registered_world (demo_repo @ [''repodata'', ''repomd.xml'']) = Some ''registered''
   \<and> ET_parse demo_lib ''registered'' = Some demo_index_registered
   \<and> add_repomd demo_lib demo_repo (demo_repo @ [''repodata'', ''imadata.xml.gz''])
        ''d0c'' 70 ''c0ffee'' 90 1700000000 registered_world
      = (Inl (SystemExit (- 1)),
         registered_world\<lparr>stdout := [''ERROR: data type imadata already present'']\<rparr>)"
proof -
  have 1: "fs registered_world (demo_repo @ [''repodata'', ''repomd.xml'']) = Some ''registered''"
    using registered_fs by (simp add: repomd_path_def)
  have 2: "ET_parse demo_lib ''registered'' = Some demo_index_registered"
    by (simp add: demo_lib_def)
  let ?e = "Element repo_data_tag [(''type'', ''imadata'')] None (Some ''\<newline>'') []"
  have 3: "?e \<in> set (el_children demo_index_registered)" "el_tag ?e = repo_data_tag"
    "map_of (el_attrib ?e) ''type'' = Some ''imadata''"
    by (simp_all add: demo_index_registered_def)
  have 4: "\<forall>e' \<in> set (el_children demo_index_registered).
              el_tag e' = repo_data_tag \<longrightarrow> map_of (el_attrib e') ''type'' \<noteq> None"
    by (simp add: demo_index_registered_def)
  have 5: "stdout registered_world = []"
    by (simp add: registered_world_def demo_world_def)
  show ?thesis
    using duplicate_entry_rejected [where data = "demo_repo @ [''repodata'', ''imadata.xml.gz'']"
        and oc = "''d0c''" and os = 70 and c = "''c0ffee''" and sz = 90 and ts = 1700000000,
        OF 1 2 3] 1 2 4 5
    by simp
qed

subsection \<open>The names of the artifact\<close>

lemma path_name_snoc: "path_name (r @ [d, n]) = n"
  by (simp add: path_name_def)

lemma with_name_snoc: "with_name (r @ [d, n]) m = r @ [d, m]"
  by (simp add: with_name_def butlast_append)

lemma path_suffix_imadata: "path_suffix (r @ [d, ''imadata.xml'']) = ''.xml''"
  by (simp add: path_suffix_def path_name_snoc)

lemma with_suffix_imadata:
  "with_suffix (r @ [d, ''imadata.xml'']) (''.xml'' @ ''.gz'') = r @ [d, ''imadata.xml.gz'']"
  by (simp add: with_suffix_def path_suffix_imadata path_name_snoc with_name_snoc)

lemma artifact_name_neq:
  "c @ ''-imadata.xml.gz'' \<noteq> ''imadata.xml.gz''"
  "c @ ''-imadata.xml.gz'' \<noteq> ''imadata.xml''"
  "c @ ''-imadata.xml.gz'' \<noteq> ''repomd.xml''"
proof -
  show "c @ ''-imadata.xml.gz'' \<noteq> ''imadata.xml.gz''"
  proof
    assume "c @ ''-imadata.xml.gz'' = ''imadata.xml.gz''"
    then have "length (c @ ''-imadata.xml.gz'') = length ''imadata.xml.gz''" by simp
    then show False by simp
  qed
  show "c @ ''-imadata.xml.gz'' \<noteq> ''imadata.xml''"
  proof
    assume "c @ ''-imadata.xml.gz'' = ''imadata.xml''"
    then have "last (c @ ''-imadata.xml.gz'') = last ''imadata.xml''" by simp
    then show False by simp
  qed
  show "c @ ''-imadata.xml.gz'' \<noteq> ''repomd.xml''"
  proof
    assume "c @ ''-imadata.xml.gz'' = ''repomd.xml''"
    then have "last (c @ ''-imadata.xml.gz'') = last ''repomd.xml''" by simp
    then show False by simp
  qed
qed

lemma gzip_file_imadata:
  assumes "fs w (r @ [d, ''imadata.xml'']) = Some doc"
  shows "gzip_file lib (r @ [d, ''imadata.xml'']) (r @ [d, ''imadata.xml'']) w =
           (Inr (r @ [d, ''imadata.xml.gz'']),
            w\<lparr>fs := ((fs w)(r @ [d, ''imadata.xml.gz''] \<mapsto> gzip_compress lib (clock w) doc))
                        (r @ [d, ''imadata.xml''] := None)\<rparr>)"
proof -
  have "with_suffix (r @ [d, ''imadata.xml'']) (path_suffix (r @ [d, ''imadata.xml'']) @ ''.gz'')
          = r @ [d, ''imadata.xml.gz'']"
    using with_suffix_imadata [of r d] by (simp add: path_suffix_imadata)
  then show ?thesis
    using assms by (simp add: gzip_file_def Let_def)
qed

lemma register_eq:
  assumes "fs w (r @ [''repodata'', ''imadata.xml'']) = Some doc" and "repository a = r"
    and "gz = gzip_compress lib (clock w) doc" and "checksum = sha256_hexdigest lib gz"
  shows "register lib a (r @ [''repodata'', ''imadata.xml'']) w =
           add_repomd lib r (r @ [''repodata'', ''imadata.xml.gz''])
             (sha256_hexdigest lib doc) (length doc) checksum (length gz) (clock w)
             (w\<lparr>fs := ((fs w)(r @ [''repodata'', ''imadata.xml''] := None,
                              r @ [''repodata'', ''imadata.xml.gz''] := None))
                        (r @ [''repodata'', checksum @ ''-imadata.xml.gz''] \<mapsto> gz)\<rparr>)"
proof -
  have g: "gzip_file lib (r @ [''repodata'', ''imadata.xml'']) (r @ [''repodata'', ''imadata.xml'']) w =
           (Inr (r @ [''repodata'', ''imadata.xml.gz'']),
            w\<lparr>fs := ((fs w)(r @ [''repodata'', ''imadata.xml.gz''] \<mapsto> gz))
                        (r @ [''repodata'', ''imadata.xml''] := None)\<rparr>)"
    using gzip_file_imadata [OF assms(1), of lib] assms(3) by simp
  have u: "((fs w)(r @ [''repodata'', ''imadata.xml.gz''] \<mapsto> gz,
                   r @ [''repodata'', ''imadata.xml''] := None,
                   r @ [''repodata'', ''imadata.xml.gz''] := None))
           = ((fs w)(r @ [''repodata'', ''imadata.xml''] := None,
                     r @ [''repodata'', ''imadata.xml.gz''] := None))"
    by (rule ext) simp
  show ?thesis
    unfolding register_def
    by (simp add: assms file_hash_def st_size_def st_ctime_def g with_name_snoc path_name_snoc
        path_rename_def u)
qed

lemma add_repomd_fs_other:
  "p \<noteq> repo @ [''repodata'', ''repomd.xml''] \<Longrightarrow>
   fs (snd (add_repomd lib repo data oc os c sz ts w)) p = fs w p"
proof -
  assume p: "p \<noteq> repo @ [''repodata'', ''repomd.xml'']"
  have cp: "fs (snd (check_present es w)) = fs w" for es
    by (rule check_present_fs)
  show ?thesis
  proof (cases "fs w (repo @ [''repodata'', ''repomd.xml''])")
    case None
    then show ?thesis by (simp add: add_repomd_def)
  next
    case (Some bytes)
    show ?thesis
    proof (cases "ET_parse lib bytes")
      case None
      with Some show ?thesis by (simp add: add_repomd_def)
    next
      case (Some root)
      obtain r w' where c: "check_present (findall repo_data_tag root) w = (r, w')"
        by (cases "check_present (findall repo_data_tag root) w")
      then have "fs w' = fs w"
        using cp [of "findall repo_data_tag root"] by simp
      then show ?thesis
        using \<open>fs w (repo @ [''repodata'', ''repomd.xml'']) = Some bytes\<close> Some c p
        by (cases r) (simp_all add: add_repomd_def Let_def)
    qed
  qed
qed

lemma add_repomd_success:
  assumes "fst (add_repomd lib repo data oc os c sz ts w) = Inr ()"
  shows "\<exists>root. fs (snd (add_repomd lib repo data oc os c sz ts w)) (repo @ [''repodata'', ''repomd.xml''])
           = Some (ET_write lib
               (Element (el_tag root) (el_attrib root) (el_text root) (el_tail root)
                 (set_last_tail ''\<newline>  '' (el_children root)
                    @ [indent (data_entry data oc os c sz ts) 1])))"
proof (cases "fs w (repo @ [''repodata'', ''repomd.xml''])")
  case None
  then show ?thesis using assms by (simp add: add_repomd_def)
next
  case (Some bytes)
  note b = this
  show ?thesis
  proof (cases "ET_parse lib bytes")
    case None
    with b show ?thesis using assms by (simp add: add_repomd_def)
  next
    case (Some root)
    obtain r w' where c: "check_present (findall repo_data_tag root) w = (r, w')"
      by (cases "check_present (findall repo_data_tag root) w")
    show ?thesis
      using b Some c assms
      by (cases r; cases "el_children root = []") (auto simp: add_repomd_def Let_def)
  qed
qed

lemma indent_data_entry:
  "indent (data_entry data oc os c sz ts) 1 =
     Element ''data'' [(''type'', ''imadata'')] (Some ''\<newline>    '') (Some ''\<newline>'')
       [Element ''checksum'' [(''type'', ''sha256'')] (Some c) (Some ''\<newline>    '') [],
        Element ''open-checksum'' [(''type'', ''sha256'')] (Some oc) (Some ''\<newline>    '') [],
        Element ''location'' [(''href'', ''repodata/'' @ c @ ''_'' @ path_name data)] None
          (Some ''\<newline>    '') [],
        Element ''timestamp'' [] (Some (str_int ts)) (Some ''\<newline>    '') [],
        Element ''size'' [] (Some (str_nat sz)) (Some ''\<newline>    '') [],
        Element ''open-size'' [] (Some (str_nat os)) (Some ''\<newline>  '') []]"
  by (simp add: data_entry_def with_text_def SubElement_def set_last_tail_def set_tail_def
      spaces_def eval_nat_numeral)

lemma location_href_data_entry:
  "location_href (indent (data_entry data oc os c sz ts) 1)
     = [''repodata/'' @ c @ ''_'' @ path_name data]"
  by (simp add: indent_data_entry location_href_def)

lemma main_register:
  assumes "modify a" and "analyze_all lib (repository a) (jobs a) w = Inr pkgs"
    and "gz = gzip_compress lib (clock w) (concat (imadata_writes pkgs))"
    and "checksum = sha256_hexdigest lib gz"
  shows "main lib a w =
           add_repomd lib (repository a) (repository a @ [''repodata'', ''imadata.xml.gz''])
             (sha256_hexdigest lib (concat (imadata_writes pkgs)))
             (length (concat (imadata_writes pkgs))) checksum (length gz) (clock w)
             (w\<lparr>fs := ((fs w)(repository a @ [''repodata'', ''imadata.xml''] := None,
                              repository a @ [''repodata'', ''imadata.xml.gz''] := None))
                        (repository a @ [''repodata'', checksum @ ''-imadata.xml.gz''] \<mapsto> gz)\<rparr>)"
proof -
  let ?w1 = "w\<lparr>fs := (fs w)(repository a @ [''repodata'', ''imadata.xml'']
                \<mapsto> concat (imadata_writes pkgs))\<rparr>"
  have m: "main lib a w = register lib a (repository a @ [''repodata'', ''imadata.xml'']) ?w1"
    using assms(1,2) by (simp add: main_def imadata_xml_def Let_def)
  have f: "fs ?w1 (repository a @ [''repodata'', ''imadata.xml'']) = Some (concat (imadata_writes pkgs))"
    by simp
  have u: "((fs w)(repository a @ [''repodata'', ''imadata.xml''] \<mapsto> concat (imadata_writes pkgs),
                   repository a @ [''repodata'', ''imadata.xml''] := None))
         = (fs w)(repository a @ [''repodata'', ''imadata.xml''] := None)"
    by simp
  show ?thesis
    unfolding m
    using register_eq [OF f refl, of gz lib checksum] assms(3,4) by (simp add: u)
qed

text \<open>
  Claim C9. After a run with registration in which the scan succeeded, the compressed
  artifact is on disk under the name of its checksum, a hyphen and
  \<^verbatim>\<open>imadata.xml.gz\<close>, and not under \<^verbatim>\<open>imadata.xml.gz\<close>; and when the run has
  succeeded, the index written is the serialisation of a tree whose last entry is the
  data entry of type \<^verbatim>\<open>imadata\<close>, with the one location
  \<^verbatim>\<open>repodata/\<close>, the checksum, an underscore and \<^verbatim>\<open>imadata.xml.gz\<close>.
\<close>

theorem artifact_names:
  assumes "modify a" and "analyze_all lib (repository a) (jobs a) w = Inr pkgs"
    and "gz = gzip_compress lib (clock w) (concat (imadata_writes pkgs))"
    and "checksum = sha256_hexdigest lib gz"
  shows "fs (snd (main lib a w)) (repository a @ [''repodata'', checksum @ ''-imadata.xml.gz''])
           = Some gz
       \<and> fs (snd (main lib a w)) (repository a @ [''repodata'', ''imadata.xml.gz'']) = None
       \<and> (fst (main lib a w) = Inr () \<longrightarrow>
            (\<exists>root. fs (snd (main lib a w)) (repository a @ [''repodata'', ''repomd.xml''])
                      = Some (ET_write lib root)
               \<and> el_children root \<noteq> []
               \<and> el_tag (last (el_children root)) = ''data''
               \<and> el_attrib (last (el_children root)) = [(''type'', ''imadata'')]
               \<and> location_href (last (el_children root))
                   = [''repodata/'' @ checksum @ ''_imadata.xml.gz'']))"
proof (intro conjI impI)
  let ?r = "repository a"
  let ?gzp = "?r @ [''repodata'', ''imadata.xml.gz'']"
  let ?w2 = "w\<lparr>fs := ((fs w)(?r @ [''repodata'', ''imadata.xml''] := None, ?gzp := None))
                        (?r @ [''repodata'', checksum @ ''-imadata.xml.gz''] \<mapsto> gz)\<rparr>"
  let ?add = "add_repomd lib ?r ?gzp (sha256_hexdigest lib (concat (imadata_writes pkgs)))
             (length (concat (imadata_writes pkgs))) checksum (length gz) (clock w) ?w2"
  have m: "main lib a w = ?add"
    by (rule main_register [OF assms])
  have "fs (snd ?add) (?r @ [''repodata'', checksum @ ''-imadata.xml.gz''])
          = fs ?w2 (?r @ [''repodata'', checksum @ ''-imadata.xml.gz''])"
    by (rule add_repomd_fs_other) (simp add: artifact_name_neq)
  then show "fs (snd (main lib a w)) (?r @ [''repodata'', checksum @ ''-imadata.xml.gz'']) = Some gz"
    unfolding m by simp
  have "fs (snd ?add) ?gzp = fs ?w2 ?gzp"
    by (rule add_repomd_fs_other) simp
  moreover have "?r @ [''repodata'', checksum @ ''-imadata.xml.gz''] \<noteq> ?gzp"
    by (simp add: artifact_name_neq)
  ultimately show "fs (snd (main lib a w)) ?gzp = None"
    unfolding m by simp
  assume "fst (main lib a w) = Inr ()"
  then have "fst ?add = Inr ()"
    unfolding m .
  then obtain root0 where
    "fs (snd ?add) (?r @ [''repodata'', ''repomd.xml''])
       = Some (ET_write lib
               (Element (el_tag root0) (el_attrib root0) (el_text root0) (el_tail root0)
                 (set_last_tail ''\<newline>  '' (el_children root0)
                    @ [indent (data_entry ?gzp (sha256_hexdigest lib (concat (imadata_writes pkgs)))
                         (length (concat (imadata_writes pkgs))) checksum (length gz) (clock w)) 1])))"
    using add_repomd_success by blast
  then show "\<exists>root. fs (snd (main lib a w)) (?r @ [''repodata'', ''repomd.xml''])
                      = Some (ET_write lib root)
               \<and> el_children root \<noteq> []
               \<and> el_tag (last (el_children root)) = ''data''
               \<and> el_attrib (last (el_children root)) = [(''type'', ''imadata'')]
               \<and> location_href (last (el_children root))
                   = [''repodata/'' @ checksum @ ''_imadata.xml.gz'']"
    unfolding m
    by (intro exI conjI, assumption)
      (simp_all add: location_href_data_entry path_name_snoc, simp_all add: indent_data_entry)
qed

lemma register_args_simps:
  "repository register_args = demo_repo" "jobs register_args = 2" "modify register_args"
  by (simp_all add: register_args_def)

lemma demo_checksum:
  "sha256_hexdigest demo_lib (gzip_compress demo_lib t doc) = ''c0ffee''"
  by (simp add: demo_lib_def)

lemma demo_check_present:
  "check_present (findall repo_data_tag demo_index) w = (Inr (), w)"
  by (simp add: findall_def demo_index_def)

lemma demo_registration_succeeds:
  "fst (main demo_lib register_args demo_world) = Inr ()"
proof -
  have a: "analyze_all demo_lib (repository register_args) (jobs register_args) demo_world
             = Inr [pkg_b, pkg_a]"
    by (simp add: register_args_simps demo_analyze_all)
  have p: "ET_parse demo_lib ''index'' = Some demo_index"
    by (simp add: demo_lib_def)
  have c: "el_children demo_index \<noteq> []"
    by (simp add: demo_index_def)
  have f: "fs demo_world (demo_repo @ [''repodata'', ''repomd.xml'']) = Some ''index''"
    by (simp add: demo_world_def repomd_path_def)
  show ?thesis
    unfolding main_register [OF register_args_simps(3) a refl refl]
    by (simp add: add_repomd_def Let_def register_args_simps f p c demo_check_present
        artifact_name_neq)
qed

theorem artifact_names_witness:
  "modify register_args
   \<and> analyze_all demo_lib (repository register_args) (jobs register_args) demo_world
       = Inr [pkg_b, pkg_a]
   \<and> fst (main demo_lib register_args demo_world) = Inr ()
   \<and> fs (snd (main demo_lib register_args demo_world))
        (demo_repo @ [''repodata'', ''c0ffee-imadata.xml.gz''])
       = Some (gzip_compress demo_lib (clock demo_world) (concat (imadata_writes [pkg_b, pkg_a])))
   \<and> (\<exists>root. fs (snd (main demo_lib register_args demo_world))
                (demo_repo @ [''repodata'', ''repomd.xml'']) = Some (ET_write demo_lib root)
         \<and> location_href (last (el_children root)) = [''repodata/c0ffee_imadata.xml.gz''])"
proof -
  have a: "analyze_all demo_lib (repository register_args) (jobs register_args) demo_world
             = Inr [pkg_b, pkg_a]"
    by (simp add: register_args_simps demo_analyze_all)
  show ?thesis
    using artifact_names [OF register_args_simps(3) a refl refl] a demo_registration_succeeds
    by (auto simp: register_args_simps demo_checksum)
qed

subsection \<open>No escaping\<close>

lemma str_nat_1: "str_nat (Suc 0) = ''1''"
  by (simp add: str_nat.simps digit_char_def)

text \<open>
  Claim C10. Every string written to the document is a fixed text around the fields of a
  record as they are: name, architecture, epoch, version, release, paths and digests are
  not escaped. For the record \<open>pkg_amp\<close>, whose name has an ampersand, whose version
  has a left angle bracket and whose release is a double quote, the document has these
  characters as they are, and it is not well-formed XML: its ampersand starts no
  reference.
\<close>

theorem no_escaping:
  \<open>imadata_writes pkgs =
      [''<?xml version="1.0" encoding="UTF-8"?>\<newline>'',
       ''<imadata packages="'' @ str_nat (length pkgs) @ ''">\<newline>'']
      @ concat (map (\<lambda>pkg.
          [''<package name="'' @ name pkg @ ''" arch="''
             @ (if truthy (src pkg) then ''src'' else arch pkg) @ ''">\<newline>'',
           ''  <version epoch="'' @ str_int (or0 (epoch pkg)) @ ''" ver="'' @ ver pkg
             @ ''" rel="'' @ rel pkg @ ''"/>\<newline>'']
          @ map (\<lambda>(fname, hash). ''  <file hash="'' @ hash @ ''">'' @ fname @ ''</file>\<newline>'')
              (files pkg)
          @ [''</package>\<newline>'']) (py_sorted name pkgs))
      @ [''</imadata>'']
   \<and> concat (imadata_writes [pkg_amp]) =
       ''<?xml version="1.0" encoding="UTF-8"?>\<newline><imadata packages="1">\<newline><package name="R&D" arch="noarch">\<newline>  <version epoch="0" ver="1<2" rel="""/>\<newline></package>\<newline></imadata>''
   \<and> bare_ampersand (concat (imadata_writes [pkg_amp]))\<close>
proof -
  have w: "package_writes = (\<lambda>pkg.
          [''<package name=\"'' @ name pkg @ ''\" arch=\"''
             @ (if truthy (src pkg) then ''src'' else arch pkg) @ ''\">\<newline>'',
           ''  <version epoch=\"'' @ str_int (or0 (epoch pkg)) @ ''\" ver=\"'' @ ver pkg
             @ ''\" rel=\"'' @ rel pkg @ ''\"/>\<newline>'']
          @ map (\<lambda>(fname, hash). ''  <file hash=\"'' @ hash @ ''\">'' @ fname @ ''</file>\<newline>'')
              (files pkg)
          @ [''</package>\<newline>''])"
    by (rule ext)
      (simp add: package_writes_def package_open_def version_elem_def file_elem_def
        package_close_def)
  have 1: "imadata_writes pkgs =
      [''<?xml version=\"1.0\" encoding=\"UTF-8\"?>\<newline>'',
       ''<imadata packages=\"'' @ str_nat (length pkgs) @ ''\">\<newline>'']
      @ concat (map package_writes (py_sorted name pkgs))
      @ [''</imadata>'']" for pkgs
    by (simp add: imadata_writes_eq xml_prolog_def imadata_open_def imadata_close_def)
  have 2: "concat (imadata_writes [pkg_amp]) =
       ''<?xml version=\"1.0\" encoding=\"UTF-8\"?>\<newline><imadata packages=\"1\">\<newline><package name=\"R&D\" arch=\"noarch\">\<newline>  <version epoch=\"0\" ver=\"1<2\" rel=\"\"\"/>\<newline></package>\<newline></imadata>''"
    by (simp add: 1 py_sorted_def package_writes_def package_open_def version_elem_def
        package_close_def pkg_amp_def str_nat_1 or0_def str_int_0)
  have 3: "bare_ampersand (concat (imadata_writes [pkg_amp]))"
    unfolding 2 by simp
  show ?thesis
    using 1 [of pkgs] 2 3 unfolding w by blast
qed

end
